theory Spec2Isabelle
  imports Main "HOL-Library.Sublist"
begin

section \<open>Data model (types.ts)\<close>

datatype AppState = UPLOAD | PROCESSING | QUIZ | RESULTS

datatype Difficulty = EASY | MEDIUM | HARD

text \<open>
  A \<open>number\<close> that holds an index is an \<open>int\<close>: the quiz uses \<open>-1\<close> as the
  "no answer yet" value, and nothing in the program bounds the index a provider returns.
\<close>

record Question =
  q_id :: nat
  q_text :: string
  q_options :: "string list"
  q_correctAnswerIndex :: int
  q_explanation :: string

record QuizResult =
  r_score :: int
  r_total :: nat
  r_userAnswers :: "int list"
  r_questions :: "Question list"



record QuizHistoryItem =
  h_id :: string
  h_fileName :: string
  h_date :: string
  h_difficulty :: Difficulty
  h_questions :: "Question list"

section \<open>JSON values and the browser's key-value store\<close>

text \<open>
  What \<open>JSON.parse\<close> returns and \<open>JSON.stringify\<close> takes. An object is the list of
  its own properties in insertion order; numbers are the integers the program stores.
\<close>

datatype json =
    JNull
  | JBool bool
  | JNum int
  | JStr string
  | JArr "json list"
  | JObj "(string \<times> json) list"

text \<open>
  An item of \<open>localStorage\<close>. The program only ever writes \<open>JSON.stringify v\<close>; such
  a text is represented by the value \<open>v\<close> it denotes (\<open>Text v\<close>), so that
  \<open>JSON.parse\<close> of it is \<open>v\<close>. \<open>Garbage\<close> is any other stored text: the empty
  string (falsy, so the program skips it) or a text on which \<open>JSON.parse\<close> throws.
\<close>

datatype blob = Text json | Garbage

type_synonym storage = "string \<Rightarrow> blob option"

fun difficulty_json :: "Difficulty \<Rightarrow> json" where
  "difficulty_json EASY = JStr ''Easy''"
| "difficulty_json MEDIUM = JStr ''Medium''"
| "difficulty_json HARD = JStr ''Hard''"

definition question_json :: "Question \<Rightarrow> json" where
  "question_json q = JObj
     [(''id'', JNum (int (q_id q))),
      (''text'', JStr (q_text q)),
      (''options'', JArr (map JStr (q_options q))),
      (''correctAnswerIndex'', JNum (q_correctAnswerIndex q)),
      (''explanation'', JStr (q_explanation q))]"

definition history_item_json :: "QuizHistoryItem \<Rightarrow> json" where
  "history_item_json h = JObj
     [(''id'', JStr (h_id h)),
      (''fileName'', JStr (h_fileName h)),
      (''date'', JStr (h_date h)),
      (''difficulty'', difficulty_json (h_difficulty h)),
      (''questions'', JArr (map question_json (h_questions h)))]"

definition history_json :: "QuizHistoryItem list \<Rightarrow> json" where
  "history_json hs = JArr (map history_item_json hs)"

section \<open>JavaScript values: truthiness, property reads, object spread\<close>

text \<open>
  A value that may be \<open>undefined\<close> is a \<open>json option\<close>, \<open>None\<close> being \<open>undefined\<close>.
  \<open>truthy\<close> is JavaScript's conversion to a boolean.
\<close>

fun truthy :: "json option \<Rightarrow> bool" where
  "truthy None = False"
| "truthy (Some JNull) = False"
| "truthy (Some (JBool b)) = b"
| "truthy (Some (JNum n)) = (n \<noteq> 0)"
| "truthy (Some (JStr s)) = (s \<noteq> [])"
| "truthy (Some (JArr xs)) = True"
| "truthy (Some (JObj kvs)) = True"

text \<open>\<open>a || b\<close>.\<close>

definition or_else :: "json option \<Rightarrow> json option \<Rightarrow> json option" where
  "or_else a b = (if truthy a then a else b)"

text \<open>
  \<open>x?.k\<close> for the property names the program reads (\<open>provider\<close>, \<open>gemini\<close>,
  \<open>openai\<close>, \<open>apiKey\<close>, \<open>baseUrl\<close>, \<open>model\<close>, \<open>questions\<close>,
  \<open>questionText\<close>, \<open>options\<close>, \<open>correctAnswerIndex\<close>, \<open>explanation\<close>):
  \<open>undefined\<close> when \<open>x\<close> is \<open>undefined\<close> or \<open>null\<close>, the property of an object,
  and \<open>undefined\<close> on every other value, which has no property of these names. The
  property list of an object has each name once.
\<close>

fun get_prop :: "json option \<Rightarrow> string \<Rightarrow> json option" where
  "get_prop (Some (JObj kvs)) k = map_of kvs k"
| "get_prop v k = None"

text \<open>Decimal digits of a number, as \<open>String(n)\<close> and a template literal print it.\<close>

definition digit_char :: "nat \<Rightarrow> char" where
  "digit_char d = ''0123456789'' ! d"

fun show_nat :: "nat \<Rightarrow> string" where
  "show_nat n = (if n < 10 then [digit_char n] else show_nat (n div 10) @ [digit_char (n mod 10)])"

declare show_nat.simps [simp del]

text \<open>
  The own enumerable properties that an object spread \<open>{...v}\<close> copies: those of an
  object, the indexed elements of an array, the indexed characters of a string, and none
  of any other value.
\<close>

fun indexed_from :: "nat \<Rightarrow> json list \<Rightarrow> (string \<times> json) list" where
  "indexed_from i [] = []"
| "indexed_from i (x # xs) = (show_nat i, x) # indexed_from (Suc i) xs"

fun own_props :: "json \<Rightarrow> (string \<times> json) list" where
  "own_props (JObj kvs) = kvs"
| "own_props (JArr xs) = indexed_from 0 xs"
| "own_props (JStr s) = indexed_from 0 (map (\<lambda>c. JStr [c]) s)"
| "own_props v = []"

text \<open>Assigning a property: an existing name keeps its place, a new one goes last.\<close>

fun set_prop :: "string \<Rightarrow> json \<Rightarrow> (string \<times> json) list \<Rightarrow> (string \<times> json) list" where
  "set_prop k v [] = [(k, v)]"
| "set_prop k v ((k', v') # rest) = (if k' = k then (k, v) # rest else (k', v') # set_prop k v rest)"

text \<open>\<open>{...a, ...b}\<close>, on the property lists: the properties of \<open>a\<close>, then each of
  \<open>b\<close> assigned in turn.\<close>

definition spread :: "(string \<times> json) list \<Rightarrow> (string \<times> json) list \<Rightarrow> (string \<times> json) list" where
  "spread a b = foldl (\<lambda>acc (k, v). set_prop k v acc) a b"

section \<open>Settings (types.ts, App)\<close>

datatype AIProvider = Gemini | OpenAI

record GeminiConfig =
  gem_apiKey :: string

record OpenAIConfig =
  oa_baseUrl :: string
  oa_apiKey :: string
  oa_model :: string

record AISettings =
  s_provider :: AIProvider
  s_gemini :: GeminiConfig
  s_openai :: OpenAIConfig

text \<open>The object that a value of type \<open>AISettings\<close> is.\<close>

fun provider_json :: "AIProvider \<Rightarrow> json" where
  "provider_json Gemini = JStr ''gemini''"
| "provider_json OpenAI = JStr ''openai''"

definition settings_json :: "AISettings \<Rightarrow> json" where
  "settings_json st = JObj
     [(''provider'', provider_json (s_provider st)),
      (''gemini'', JObj [(''apiKey'', JStr (gem_apiKey (s_gemini st)))]),
      (''openai'', JObj [(''baseUrl'', JStr (oa_baseUrl (s_openai st))),
                         (''apiKey'', JStr (oa_apiKey (s_openai st))),
                         (''model'', JStr (oa_model (s_openai st)))])]"

definition DEFAULT_SETTINGS :: json where
  "DEFAULT_SETTINGS = JObj
     [(''provider'', JStr ''gemini''),
      (''gemini'', JObj [(''apiKey'', JStr '''')]),
      (''openai'', JObj [(''baseUrl'', JStr ''https://api.openai.com/v1''),
                         (''apiKey'', JStr ''''),
                         (''model'', JStr ''gpt-4o'')])]"

section \<open>The App component's state and its history handlers\<close>

record App =
  appState :: AppState
  questions :: "Question list"
  result :: "QuizResult option"
  aiSettings :: json
  history :: "QuizHistoryItem list"
  localStorage :: storage

text \<open>
  \<open>saveToHistory\<close>. The two clock readings (\<open>Date.now().toString()\<close> and
  \<open>new Date().toISOString()\<close>) are inputs. \<open>[newItem, ...history].slice(0, 20)\<close> is
  \<open>take 20 (newItem # history)\<close>.
\<close>

definition newItem :: "string \<Rightarrow> string \<Rightarrow> string \<Rightarrow> Difficulty \<Rightarrow> Question list \<Rightarrow> QuizHistoryItem" where
  "newItem now stamp fileName difficulty qs =
     \<lparr>h_id = now, h_fileName = fileName, h_date = stamp, h_difficulty = difficulty, h_questions = qs\<rparr>"

definition saveToHistory ::
  "string \<Rightarrow> string \<Rightarrow> string \<Rightarrow> Difficulty \<Rightarrow> Question list \<Rightarrow> App \<Rightarrow> App" where
  "saveToHistory now stamp fileName difficulty qs s =
     (let updatedHistory = take 20 (newItem now stamp fileName difficulty qs # history s)
      in s\<lparr>history := updatedHistory,
            localStorage := (localStorage s)(''exam_simulator_history'' \<mapsto> Text (history_json updatedHistory))\<rparr>)"

definition handleDeleteHistory :: "string \<Rightarrow> App \<Rightarrow> App" where
  "handleDeleteHistory i s =
     (let updatedHistory = filter (\<lambda>item. h_id item \<noteq> i) (history s)
      in s\<lparr>history := updatedHistory,
            localStorage := (localStorage s)(''exam_simulator_history'' \<mapsto> Text (history_json updatedHistory))\<rparr>)"

definition handleLoadFromHistory :: "QuizHistoryItem \<Rightarrow> App \<Rightarrow> App" where
  "handleLoadFromHistory item s = s\<lparr>questions := h_questions item, appState := QUIZ\<rparr>"

text \<open>The state of a freshly mounted App over a given store (the \<open>useState\<close>
  initial values), then the settings half of its mount effect, and \<open>handleSaveSettings\<close>.\<close>

definition initial_app :: "storage \<Rightarrow> App" where
  "initial_app store = \<lparr>appState = UPLOAD, questions = [], result = None,
     aiSettings = DEFAULT_SETTINGS, history = [], localStorage = store\<rparr>"

definition load_settings :: "App \<Rightarrow> App" where
  "load_settings a =
     (case localStorage a ''exam_simulator_settings'' of
        None \<Rightarrow> a
      | Some Garbage \<Rightarrow> a
      | Some (Text parsed) \<Rightarrow>
          a\<lparr>aiSettings := JObj (spread (own_props DEFAULT_SETTINGS) (own_props parsed))\<rparr>)"

definition handleSaveSettings :: "json \<Rightarrow> App \<Rightarrow> App" where
  "handleSaveSettings newSettings a =
     a\<lparr>aiSettings := newSettings,
       localStorage := (localStorage a)(''exam_simulator_settings'' \<mapsto> Text newSettings)\<rparr>"

text \<open>A path of property reads, \<open>v.k1.k2\<close>.\<close>

definition get_path :: "json \<Rightarrow> string list \<Rightarrow> json option" where
  "get_path v ks = foldl get_prop (Some v) ks"

text \<open>A state to evaluate the handlers on: nothing stored, no history.\<close>

definition app0 :: App where
  "app0 = initial_app Map.empty"

definition item0 :: "string \<Rightarrow> QuizHistoryItem" where
  "item0 i = newItem i ''2024-01-01T00:00:00.000Z'' ''notes.pdf'' EASY []"

section \<open>The quiz session (components/QuizInterface.tsx)\<close>

text \<open>What the program throws: a \<open>TypeError\<close> on a property read of \<open>undefined\<close>,
  a \<open>SyntaxError\<close> of \<open>JSON.parse\<close>, or \<open>new Error(message)\<close>.\<close>

datatype error = TypeError | SyntaxError | Error string

text \<open>The component's props (\<open>questions\<close>) and its three \<open>useState\<close> cells.\<close>

record QuizInterface =
  qi_questions :: "Question list"
  currentIndex :: nat
  selectedAnswers :: "int list"
  showExplanation :: bool

text \<open>The initial state: \<open>new Array(questions.length).fill(-1)\<close>.\<close>

definition mount :: "Question list \<Rightarrow> QuizInterface" where
  "mount qs = \<lparr>qi_questions = qs, currentIndex = 0,
               selectedAnswers = replicate (length qs) (- 1), showExplanation = False\<rparr>"

text \<open>\<open>questions[currentIndex]\<close>, which is \<open>undefined\<close> out of range.\<close>

definition currentQuestion :: "QuizInterface \<Rightarrow> Question option" where
  "currentQuestion s =
     (if currentIndex s < length (qi_questions s) then Some (qi_questions s ! currentIndex s) else None)"

text \<open>\<open>currentIndex === questions.length - 1\<close>, on integers: false for an empty quiz.\<close>

definition isLastQuestion :: "QuizInterface \<Rightarrow> bool" where
  "isLastQuestion s = (int (currentIndex s) = int (length (qi_questions s)) - 1)"

text \<open>\<open>selectedAnswers[currentIndex] !== -1\<close>. Out of range the read is \<open>undefined\<close>,
  which is not \<open>-1\<close>.\<close>

definition hasAnsweredCurrent :: "QuizInterface \<Rightarrow> bool" where
  "hasAnsweredCurrent s =
     (if currentIndex s < length (selectedAnswers s)
      then selectedAnswers s ! currentIndex s \<noteq> - 1 else True)"

text \<open>\<open>handleOptionSelect\<close>. Past the guard \<open>currentIndex\<close> is in range, so the
  assignment \<open>newAnswers[currentIndex] = optionIndex\<close> is a list update.\<close>

definition handleOptionSelect :: "int \<Rightarrow> QuizInterface \<Rightarrow> QuizInterface" where
  "handleOptionSelect optionIndex s =
     (if hasAnsweredCurrent s then s
      else s\<lparr>selectedAnswers := (selectedAnswers s)[currentIndex s := optionIndex],
             showExplanation := True\<rparr>)"

text \<open>A session is the mounted component, or is over: \<open>onComplete(selectedAnswers)\<close>
  has been called with the answers (the App then leaves the quiz screen).\<close>

datatype session = Running QuizInterface | Completed "int list"

definition handleNext :: "QuizInterface \<Rightarrow> session" where
  "handleNext s =
     (if isLastQuestion s then Completed (selectedAnswers s)
      else Running (s\<lparr>currentIndex := currentIndex s + 1, showExplanation := False\<rparr>))"

text \<open>
  The two operations of the session as calls of the handlers: \<open>selectOption k\<close> is
  \<open>handleOptionSelect k\<close>, \<open>advance\<close> is \<open>handleNext\<close>. A completed session takes
  no more events.
\<close>

datatype event = SelectOption int | Advance

fun step :: "session \<Rightarrow> event \<Rightarrow> session" where
  "step (Completed ua) e = Completed ua"
| "step (Running s) (SelectOption k) = Running (handleOptionSelect k s)"
| "step (Running s) Advance = handleNext s"

definition run :: "session \<Rightarrow> event list \<Rightarrow> session" where
  "run st evs = foldl step st evs"

text \<open>
  Modelled from the spec: the \<open>Button\<close> component (components/Button) is not among the
  sources. The spec says the UI forces an answer before proceeding and prevents the
  advance "via disabled state": a click on a Button whose \<open>disabled\<close> prop is true does
  nothing, any other click runs \<open>onClick\<close>.
\<close>

definition Button :: "bool \<Rightarrow> (QuizInterface \<Rightarrow> session) \<Rightarrow> QuizInterface \<Rightarrow> session" where
  "Button disabled onClick s = (if disabled then Running s else onClick s)"

text \<open>The Next button: \<open>onClick={handleNext} disabled={!hasAnsweredCurrent}\<close>.\<close>

definition nextButton :: "QuizInterface \<Rightarrow> session" where
  "nextButton s = Button (\<not> hasAnsweredCurrent s) handleNext s"

text \<open>The same two operations as the user has them: \<open>advance\<close> is a click on the
  Next button.\<close>

fun ui_step :: "session \<Rightarrow> event \<Rightarrow> session" where
  "ui_step (Completed ua) e = Completed ua"
| "ui_step (Running s) (SelectOption k) = Running (handleOptionSelect k s)"
| "ui_step (Running s) Advance = nextButton s"

definition ui_run :: "session \<Rightarrow> event list \<Rightarrow> session" where
  "ui_run st evs = foldl ui_step st evs"

text \<open>\<open>n\<close> cycles of \<open>selectOption k\<close> then \<open>advance\<close>, one per selected option.\<close>

definition cycles :: "int list \<Rightarrow> event list" where
  "cycles ks = concat (map (\<lambda>k. [SelectOption k, Advance]) ks)"

fun answers_of :: "session \<Rightarrow> int list" where
  "answers_of (Running s) = selectedAnswers s"
| "answers_of (Completed ua) = ua"

fun is_Completed :: "session \<Rightarrow> bool" where
  "is_Completed (Completed ua) = True"
| "is_Completed (Running s) = False"

text \<open>
  \<open>handleQuizComplete\<close> (App). \<open>userAnswers.reduce((acc, answer, idx) => ..., 0)\<close> is
  the recursion \<open>score_from\<close> on the index and the accumulator;
  \<open>questions[idx].correctAnswerIndex\<close> throws a \<open>TypeError\<close> when \<open>idx\<close> is out of
  range.
\<close>

fun score_from :: "Question list \<Rightarrow> nat \<Rightarrow> int \<Rightarrow> int list \<Rightarrow> error + int" where
  "score_from qs idx acc [] = Inr acc"
| "score_from qs idx acc (answer # rest) =
     (if idx < length qs
      then score_from qs (Suc idx)
             (if answer = q_correctAnswerIndex (qs ! idx) then acc + 1 else acc) rest
      else Inl TypeError)"

definition handleQuizComplete :: "int list \<Rightarrow> App \<Rightarrow> error + App" where
  "handleQuizComplete userAnswers a =
     (case score_from (questions a) 0 0 userAnswers of
        Inl e \<Rightarrow> Inl e
      | Inr score \<Rightarrow>
          Inr (a\<lparr>result := Some \<lparr>r_score = score, r_total = length (questions a),
                                  r_userAnswers = userAnswers, r_questions = questions a\<rparr>,
                 appState := RESULTS\<rparr>))"

text \<open>
  The spec's words for the score: the indices \<open>i\<close> where \<open>userAnswers[i]\<close> equals
  \<open>questions[i].correctAnswerIndex\<close>; the score is their number.
\<close>

definition spec_correct_indices :: "Question list \<Rightarrow> int list \<Rightarrow> nat list" where
  "spec_correct_indices qs userAnswers =
     filter (\<lambda>i. userAnswers ! i = q_correctAnswerIndex (qs ! i)) [0..<length userAnswers]"

text \<open>In a state \<open>awaiting pre m\<close> the questions before the current one have the
  answers \<open>pre\<close>, and the current one and the \<open>m\<close> after it have none.\<close>

definition awaiting :: "int list \<Rightarrow> nat \<Rightarrow> QuizInterface \<Rightarrow> bool" where
  "awaiting pre m s \<longleftrightarrow>
     selectedAnswers s = pre @ replicate (Suc m) (- 1) \<and> currentIndex s = length pre
     \<and> length (qi_questions s) = length pre + Suc m"

section \<open>Quiz generation (services/geminiService.ts)\<close>

text \<open>
  \<open>generateQuizFromContent\<close> chooses the adapter: \<open>settings?.provider || 'gemini'\<close>
  compared with \<open>'gemini'\<close>. The result is the call it makes, with the settings
  argument that the call receives (\<open>settings\<close>, or \<open>settings.openai\<close>).
\<close>

datatype adapter_call = CallGemini "json option" | CallOpenAI "json option"

definition generateQuizFromContent :: "json option \<Rightarrow> adapter_call" where
  "generateQuizFromContent settings =
     (let provider = or_else (get_prop settings ''provider'') (Some (JStr ''gemini''))
      in if provider = Some (JStr ''gemini'') then CallGemini settings
         else CallOpenAI (get_prop settings ''openai''))"

text \<open>
  The key of \<open>generateWithGemini\<close>: \<open>settings?.gemini?.apiKey || process.env.API_KEY\<close>,
  and the throw when it is falsy. The environment's key is a string or is not set.
\<close>

definition gemini_apiKey :: "json option \<Rightarrow> string option \<Rightarrow> error + json" where
  "gemini_apiKey settings env_API_KEY =
     (case or_else (get_prop (get_prop settings ''gemini'') ''apiKey'') (map_option JStr env_API_KEY) of
        None \<Rightarrow> Inl (Error ''Missing Gemini API Key. Please provide one in settings or configure the environment.'')
      | Some apiKey \<Rightarrow>
          if truthy (Some apiKey) then Inr apiKey
          else Inl (Error ''Missing Gemini API Key. Please provide one in settings or configure the environment.''))"

text \<open>
  The end of \<open>generateWithGemini\<close>: the text of the provider's response (none, or
  empty, throws) goes through \<open>JSON.parse\<close>, a parameter here, which throws a
  \<open>SyntaxError\<close> (\<open>None\<close>) or returns a value. The code returns that value,
  whatever it is (an object of any shape, an array, \<open>null\<close>, a string, a number):
  \<open>as GeneratedQuizResponse\<close> checks nothing.
\<close>

definition generateWithGemini_result ::
  "(string \<Rightarrow> json option) \<Rightarrow> string option \<Rightarrow> error + json" where
  "generateWithGemini_result parse response_text =
     (case response_text of
        None \<Rightarrow> Inl (Error ''No response generated from Gemini.'')
      | Some txt \<Rightarrow>
          if txt = [] then Inl (Error ''No response generated from Gemini.'')
          else (case parse txt of None \<Rightarrow> Inl SyntaxError | Some r \<Rightarrow> Inr r))"

subsection \<open>Text of a PDF\<close>

text \<open>
  A loaded document: its number of pages, and for each page number the \<open>str\<close> of its
  text items, or \<open>None\<close> when \<open>getPage\<close> or \<open>getTextContent\<close> throws for that page.
\<close>

record PdfDocument =
  numPages :: nat
  getPage :: "nat \<Rightarrow> string list option"

text \<open>What \<open>atob\<close> and \<open>getDocument(...).promise\<close> come to: either throws, with a
  message, or the document is loaded.\<close>

datatype pdf_loading = AtobFailed string | LoadFailed string | Loaded PdfDocument

text \<open>\<open>items.join(' ')\<close>.\<close>

fun join :: "string \<Rightarrow> string list \<Rightarrow> string" where
  "join sep [] = []"
| "join sep [x] = x"
| "join sep (x # y # ys) = x @ sep @ join sep (y # ys)"

text \<open>The loop over the pages, \<open>for (let i = 1; i <= totalPages; i++)\<close>, with its
  \<open>try\<close> and \<open>catch\<close> around each page.\<close>

function pages_from :: "PdfDocument \<Rightarrow> nat \<Rightarrow> string \<Rightarrow> string" where
  "pages_from pdf i fullText =
     (if i \<le> numPages pdf
      then pages_from pdf (Suc i)
             (case getPage pdf i of
                Some items \<Rightarrow>
                  fullText @ ''--- PAGE '' @ show_nat i @ '' ---\<newline>'' @ join '' '' items @ ''\<newline>\<newline>''
              | None \<Rightarrow>
                  fullText @ ''--- PAGE '' @ show_nat i @ '' (Extraction Failed) ---\<newline>\<newline>'')
      else fullText)"
  by pat_completeness auto
termination
  by (relation "measure (\<lambda>(pdf, i, fullText). Suc (numPages pdf) - i)") auto

declare pages_from.simps [simp del]

text \<open>\<open>!fullText.trim()\<close>: the text has white space only. The white space listed is
  the one of the ASCII range; the text of a document with a page starts with a marker,
  which no notion of white space makes blank.\<close>

definition is_space :: "char \<Rightarrow> bool" where
  "is_space c = (c \<in> set [CHR '' '', CHR ''\<newline>'', CHR 0x09, CHR 0x0B, CHR 0x0C, CHR 0x0D])"

definition is_blank :: "string \<Rightarrow> bool" where
  "is_blank s = list_all is_space s"

text \<open>\<open>s.startsWith(p)\<close> and \<open>s.includes(p)\<close>.\<close>

definition starts_with :: "string \<Rightarrow> string \<Rightarrow> bool" where
  "starts_with s p = (take (length p) s = p)"

fun str_includes :: "string \<Rightarrow> string \<Rightarrow> bool" where
  "str_includes [] p = (p = [])"
| "str_includes (c # cs) p = (starts_with (c # cs) p \<or> str_includes cs p)"

text \<open>The outer \<open>catch\<close> of \<open>extractTextFromPdf\<close>, on the message of what was thrown.\<close>

definition rethrow :: "string \<Rightarrow> error" where
  "rethrow msg =
     (if str_includes msg ''Worker''
      then Error ''PDF Worker failed to initialize. Please refresh or try a different browser.''
      else Error (if msg = [] then ''Failed to extract text from PDF.'' else msg))"

definition extractTextFromPdf :: "pdf_loading \<Rightarrow> error + string" where
  "extractTextFromPdf loading =
     (case loading of
        AtobFailed msg \<Rightarrow> Inl (rethrow msg)
      | LoadFailed msg \<Rightarrow> Inl (rethrow (''Could not load PDF document. '' @ msg))
      | Loaded pdf \<Rightarrow>
          (let fullText = pages_from pdf 1 []
           in if is_blank fullText
              then Inl (rethrow ''PDF appears to be empty or contains only scanned images without text layer.'')
              else Inr fullText))"

text \<open>
  The spec's words for the text of a document: for each page in page order, the page's
  text after a \<open>--- PAGE n ---\<close> marker, or the marker
  \<open>--- PAGE n (Extraction Failed) ---\<close> for a page whose extraction fails.
\<close>

definition spec_page_block :: "nat \<Rightarrow> string list option \<Rightarrow> string" where
  "spec_page_block n page =
     (case page of
        Some items \<Rightarrow> ''--- PAGE '' @ show_nat n @ '' ---\<newline>'' @ join '' '' items @ ''\<newline>\<newline>''
      | None \<Rightarrow> ''--- PAGE '' @ show_nat n @ '' (Extraction Failed) ---\<newline>\<newline>'')"

definition spec_document_text :: "PdfDocument \<Rightarrow> string" where
  "spec_document_text pdf = concat (map (\<lambda>n. spec_page_block n (getPage pdf n)) [1..<Suc (numPages pdf)])"

subsection \<open>The request of the OpenAI-style adapter\<close>

datatype content_part = TextPart string | ImageUrlPart string

datatype chat_message = SystemMessage string | UserMessage "content_part list"

text \<open>
  The content of the user message, by media type. \<open>promptText\<close> is
  \<open>PROMPT_TEMPLATE(difficulty)\<close>; \<open>decoded\<close> is what \<open>atob(base64Data)\<close> comes to.
\<close>

definition userContent ::
  "string \<Rightarrow> string \<Rightarrow> string \<Rightarrow> error + string \<Rightarrow> pdf_loading \<Rightarrow> error + content_part list" where
  "userContent mimeType base64Data promptText decoded loading =
     (if mimeType = ''application/pdf'' then
        (case extractTextFromPdf loading of
           Inl e \<Rightarrow> Inl e
         | Inr extractedText \<Rightarrow> Inr [TextPart extractedText, TextPart promptText])
      else if starts_with mimeType ''image/'' then
        Inr [ImageUrlPart (''data:'' @ mimeType @ '';base64,'' @ base64Data), TextPart promptText]
      else
        (case decoded of
           Inl e \<Rightarrow> Inl e
         | Inr textContent \<Rightarrow> Inr [TextPart textContent, TextPart promptText]))"

text \<open>The body that is stringified, and the arguments of \<open>fetch\<close>.\<close>

record ChatBody =
  b_model :: string
  b_messages :: "chat_message list"
  b_response_format :: string

record FetchRequest =
  f_url :: string
  f_method :: string
  f_headers :: "(string \<times> string) list"
  f_body :: ChatBody

text \<open>
  The \<open>fetch\<close> call of \<open>generateWithOpenAI\<close>. \<open>config\<close> may be \<open>undefined\<close>
  (\<open>config?.apiKey\<close> then prints as \<open>undefined\<close>); \<open>config?.model || 'gpt-4o'\<close>
  replaces an empty model name.
\<close>

definition openai_fetch :: "OpenAIConfig option \<Rightarrow> chat_message list \<Rightarrow> FetchRequest" where
  "openai_fetch config messages =
     \<lparr>f_url = ''https://api.openai.com/v1/chat/completions'',
      f_method = ''POST'',
      f_headers =
        [(''Authorization'', ''Bearer '' @ (case config of None \<Rightarrow> ''undefined'' | Some c \<Rightarrow> oa_apiKey c)),
         (''Content-Type'', ''application/json'')],
      f_body =
        \<lparr>b_model = (case config of
                      None \<Rightarrow> ''gpt-4o''
                    | Some c \<Rightarrow> if oa_model c = [] then ''gpt-4o'' else oa_model c),
         b_messages = messages,
         b_response_format = ''json_object''\<rparr>\<rparr>"

text \<open>\<open>generateWithOpenAI\<close> up to the request it sends; \<open>systemInstruction\<close> is
  \<open>SYSTEM_INSTRUCTION\<close>.\<close>

definition generateWithOpenAI_request ::
  "string \<Rightarrow> string \<Rightarrow> string \<Rightarrow> string \<Rightarrow> error + string \<Rightarrow> pdf_loading
     \<Rightarrow> OpenAIConfig option \<Rightarrow> error + FetchRequest" where
  "generateWithOpenAI_request systemInstruction base64Data mimeType promptText decoded loading config =
     (case userContent mimeType base64Data promptText decoded loading of
        Inl e \<Rightarrow> Inl e
      | Inr content \<Rightarrow>
          Inr (openai_fetch config [SystemMessage systemInstruction, UserMessage content]))"

text \<open>The request the spec describes: the same, sent to \<open>{baseUrl}/chat/completions\<close>.\<close>

definition spec_openai_url :: "OpenAIConfig \<Rightarrow> string" where
  "spec_openai_url c = oa_baseUrl c @ ''/chat/completions''"

section \<open>From the provider's records to the quiz (App, handleGenerateQuiz)\<close>

text \<open>
  The object that the mapping builds for one record of the response,
  \<open>{id: idx, text: q.questionText, options: q.options,
  correctAnswerIndex: q.correctAnswerIndex, explanation: q.explanation}\<close>. types.ts
  declares it a \<open>Question\<close>, at compile time only: at run time each field but \<open>id\<close>
  is whatever value the record had under that name, or \<open>undefined\<close> (\<open>None\<close>) when
  it had none. The session and the scoring are stated on questions of the declared type.
\<close>

record MappedQuestion =
  m_id :: nat
  m_text :: "json option"
  m_options :: "json option"
  m_correctAnswerIndex :: "json option"
  m_explanation :: "json option"

text \<open>
  The callback of \<open>response.questions.map((q, idx) => ...)\<close> on one record. The reads
  \<open>q.questionText\<close>, \<open>q.options\<close>, \<open>q.correctAnswerIndex\<close> and \<open>q.explanation\<close>
  throw a \<open>TypeError\<close> on a record that is \<open>null\<close>, and on every other record
  give the property or \<open>undefined\<close>.
\<close>

definition map_question :: "nat \<Rightarrow> json \<Rightarrow> error + MappedQuestion" where
  "map_question idx q =
     (if q = JNull then Inl TypeError
      else Inr \<lparr>m_id = idx,
                m_text = get_prop (Some q) ''questionText'',
                m_options = get_prop (Some q) ''options'',
                m_correctAnswerIndex = get_prop (Some q) ''correctAnswerIndex'',
                m_explanation = get_prop (Some q) ''explanation''\<rparr>)"

text \<open>\<open>map\<close> over the records, in order, the recursion carrying the index; the first
  record on which the callback throws ends it.\<close>

fun map_questions_from :: "nat \<Rightarrow> json list \<Rightarrow> error + MappedQuestion list" where
  "map_questions_from idx [] = Inr []"
| "map_questions_from idx (q # rest) =
     (case map_question idx q of
        Inl e \<Rightarrow> Inl e
      | Inr m \<Rightarrow>
          (case map_questions_from (Suc idx) rest of
             Inl e \<Rightarrow> Inl e
           | Inr mapped \<Rightarrow> Inr (m # mapped)))"

text \<open>
  \<open>response.questions.map(...)\<close>, on the value that the generation call returned.
  \<open>response.questions\<close> throws a \<open>TypeError\<close> when the response is \<open>null\<close>, and
  \<open>.map(...)\<close> does when \<open>response.questions\<close> is anything but an array:
  \<open>undefined\<close>, or a value that has no function \<open>map\<close>.
\<close>

definition mappedQuestions :: "json \<Rightarrow> error + MappedQuestion list" where
  "mappedQuestions response =
     (case get_prop (Some response) ''questions'' of
        Some (JArr records) \<Rightarrow> map_questions_from 0 records
      | _ \<Rightarrow> Inl TypeError)"

text \<open>
  \<open>handleGenerateQuiz\<close> after the \<open>await\<close>: \<open>generated\<close> is what
  \<open>generateQuizFromContent\<close> came to. The mapping is inside the \<open>try\<close>, so what it
  throws is caught as what the generation call throws is. Either the \<open>catch\<close> runs:
  it reports the error through \<open>alert\<close> and the App goes back to the upload screen. Or
  the mapped sequence is what \<open>setQuestions\<close> and \<open>saveToHistory\<close> are called with,
  and the App shows the quiz (the store takes the write, as in \<open>saveToHistory\<close>).
\<close>

datatype generate_outcome = QuizShown "MappedQuestion list" | GenerationFailed error

definition handleGenerateQuiz :: "error + json \<Rightarrow> generate_outcome" where
  "handleGenerateQuiz generated =
     (case generated of
        Inl e \<Rightarrow> GenerationFailed e
      | Inr response \<Rightarrow>
          (case mappedQuestions response of
             Inl e \<Rightarrow> GenerationFailed e
           | Inr mapped \<Rightarrow> QuizShown mapped))"

text \<open>The shape the spec gives a returned question: exactly 4 options, and a correct
  index in 0..3.\<close>

definition spec_well_shaped :: "json \<Rightarrow> bool" where
  "spec_well_shaped q \<longleftrightarrow>
     (case get_prop (Some q) ''options'' of Some (JArr os) \<Rightarrow> length os = 4 | _ \<Rightarrow> False)
     \<and> (case get_prop (Some q) ''correctAnswerIndex'' of
           Some (JNum n) \<Rightarrow> 0 \<le> n \<and> n \<le> 3
         | _ \<Rightarrow> False)"

section \<open>Inputs for evaluation\<close>

definition quiz3 :: "Question list" where
  "quiz3 =
     [\<lparr>q_id = 0, q_text = ''q0'', q_options = [''a'', ''b'', ''c'', ''d''], q_correctAnswerIndex = 1, q_explanation = ''e0''\<rparr>,
      \<lparr>q_id = 1, q_text = ''q1'', q_options = [''a'', ''b'', ''c'', ''d''], q_correctAnswerIndex = 2, q_explanation = ''e1''\<rparr>,
      \<lparr>q_id = 2, q_text = ''q2'', q_options = [''a'', ''b'', ''c'', ''d''], q_correctAnswerIndex = 0, q_explanation = ''e2''\<rparr>]"

text \<open>Two questions, the first with the correct index \<open>-1\<close>.\<close>

definition quiz_minus1 :: "Question list" where
  "quiz_minus1 =
     [\<lparr>q_id = 0, q_text = ''q0'', q_options = [''a'', ''b'', ''c'', ''d''], q_correctAnswerIndex = - 1, q_explanation = ''e0''\<rparr>,
      \<lparr>q_id = 1, q_text = ''q1'', q_options = [''a'', ''b'', ''c'', ''d''], q_correctAnswerIndex = 2, q_explanation = ''e1''\<rparr>]"

definition quiz3_revealed :: QuizInterface where
  "quiz3_revealed = handleOptionSelect 1 (mount quiz3)"

definition hist20 :: "QuizHistoryItem list" where
  "hist20 = map (\<lambda>c. item0 [c]) ''abcdefghijklmnopqrst''"

text \<open>A record with 3 options and the correct index 7, and responses: that record
  alone; the object \<open>{}\<close>; \<open>{questions: [null]}\<close>.\<close>

definition bad_record :: json where
  "bad_record = JObj
     [(''questionText'', JStr ''q''),
      (''options'', JArr [JStr ''a'', JStr ''b'', JStr ''c'']),
      (''correctAnswerIndex'', JNum 7),
      (''explanation'', JStr ''e'')]"

definition bad_response :: json where
  "bad_response = JObj [(''questions'', JArr [bad_record])]"

definition empty_object_response :: json where
  "empty_object_response = JObj []"

definition null_record_response :: json where
  "null_record_response = JObj [(''questions'', JArr [JNull])]"

definition parse_bad :: "string \<Rightarrow> json option" where
  "parse_bad txt = (if txt = ''bad'' then Some bad_response else None)"

definition ollama_config :: OpenAIConfig where
  "ollama_config = \<lparr>oa_baseUrl = ''http://localhost:11434/v1'', oa_apiKey = ''k'', oa_model = ''llama3''\<rparr>"

definition old_settings :: json where
  "old_settings = JObj
     [(''provider'', JStr ''openai''),
      (''openai'', JObj [(''apiKey'', JStr ''sk''), (''model'', JStr ''m'')])]"

definition merged_old_props :: "(string \<times> json) list" where
  "merged_old_props =
     [(''provider'', JStr ''openai''),
      (''gemini'', JObj [(''apiKey'', JStr '''')]),
      (''openai'', JObj [(''apiKey'', JStr ''sk''), (''model'', JStr ''m'')])]"

definition old_store :: storage where
  "old_store = [''exam_simulator_settings'' \<mapsto> Text old_settings]"

definition two_pages :: PdfDocument where
  "two_pages = \<lparr>numPages = 2, getPage = (\<lambda>n. if n = 1 then Some [''Hello'', ''world''] else None)\<rparr>"

section \<open>Quiz session: write-once answers\<close>

lemma handleOptionSelect_length:
  "length (selectedAnswers (handleOptionSelect k s)) = length (selectedAnswers s)"
  by (simp add: handleOptionSelect_def)

lemma handleOptionSelect_keeps:
  assumes "i < length (selectedAnswers s)" "selectedAnswers s ! i \<noteq> - 1"
  shows "selectedAnswers (handleOptionSelect k s) ! i = selectedAnswers s ! i"
  using assms
  by (cases "i = currentIndex s") (auto simp: handleOptionSelect_def hasAnsweredCurrent_def)

lemma step_answer_kept:
  assumes "i < length (answers_of st)" "answers_of st ! i \<noteq> - 1"
  shows "length (answers_of (step st e)) = length (answers_of st)
         \<and> answers_of (step st e) ! i = answers_of st ! i"
  using assms
  by (cases st; cases e)
     (auto simp: handleOptionSelect_keeps handleOptionSelect_length handleNext_def)

lemma run_answer_kept:
  assumes "i < length (answers_of st)" "answers_of st ! i \<noteq> - 1"
  shows "length (answers_of (run st evs)) = length (answers_of st)
         \<and> answers_of (run st evs) ! i = answers_of st ! i"
  using assms
proof (induction evs arbitrary: st)
  case Nil
  then show ?case by (simp add: run_def)
next
  case (Cons e evs)
  have k: "length (answers_of (step st e)) = length (answers_of st)
         \<and> answers_of (step st e) ! i = answers_of st ! i"
    using step_answer_kept [OF Cons.prems] .
  have "length (answers_of (run (step st e) evs)) = length (answers_of (step st e))
         \<and> answers_of (run (step st e) evs) ! i = answers_of (step st e) ! i"
    using Cons.IH [of "step st e"] Cons.prems k by simp
  then show ?case using k by (simp add: run_def)
qed

text \<open>
  C7. When an answer is recorded for the current question (the state is Revealed),
  \<open>handleOptionSelect\<close> returns the state as it is. And answers are write-once at
  every index: an index that holds a recorded answer (not \<open>-1\<close>) holds the same answer
  after any further sequence of \<open>handleOptionSelect\<close> and \<open>handleNext\<close> calls, up to
  and including the answer list handed over on completion.
\<close>

theorem selectOption_write_once:
  "(hasAnsweredCurrent s \<longrightarrow> handleOptionSelect k s = s)
   \<and> (i < length (selectedAnswers s) \<and> selectedAnswers s ! i \<noteq> - 1 \<longrightarrow>
        answers_of (run (Running s) evs) ! i = selectedAnswers s ! i)"
  using run_answer_kept [of i "Running s" evs]
  by (simp add: handleOptionSelect_def)

theorem selectOption_write_once_witness:
  "hasAnsweredCurrent quiz3_revealed
   \<and> handleOptionSelect 3 quiz3_revealed = quiz3_revealed
   \<and> 0 < length (selectedAnswers quiz3_revealed) \<and> selectedAnswers quiz3_revealed ! 0 = 1
   \<and> answers_of (run (Running quiz3_revealed) [SelectOption 3, Advance, SelectOption 2, SelectOption 0]) ! 0 = 1"
proof -
  have a: "hasAnsweredCurrent quiz3_revealed"
    by (simp add: quiz3_revealed_def quiz3_def mount_def handleOptionSelect_def hasAnsweredCurrent_def)
  have b: "0 < length (selectedAnswers quiz3_revealed) \<and> selectedAnswers quiz3_revealed ! 0 = 1"
    by (simp add: quiz3_revealed_def quiz3_def mount_def handleOptionSelect_def hasAnsweredCurrent_def)
  show ?thesis
    using a b
      selectOption_write_once [of quiz3_revealed 3 0 "[SelectOption 3, Advance, SelectOption 2, SelectOption 0]"]
    by simp
qed

section \<open>History\<close>

lemma history_saveToHistory:
  "history (saveToHistory now stamp f d qs s) = take 20 (newItem now stamp f d qs # history s)"
  by (simp add: saveToHistory_def Let_def)

lemma storage_saveToHistory:
  "localStorage (saveToHistory now stamp f d qs s) ''exam_simulator_history''
     = Some (Text (history_json (history (saveToHistory now stamp f d qs s))))"
  by (simp add: saveToHistory_def Let_def)

lemma take_19_butlast: "length xs = 20 \<Longrightarrow> take 19 xs = butlast xs"
  by (simp add: butlast_conv_take)

text \<open>
  C4. On a history of 20 entries (newest first, so the oldest is the last one),
  \<open>saveToHistory\<close> drops exactly the last entry and puts the new one in front: 20
  entries remain, the 19 kept ones in their order. On a shorter history nothing is
  dropped. Reading an entry back (\<open>handleLoadFromHistory\<close>) does not touch the list, so
  the order is the order of insertion. The stored copy is the same list.
\<close>

theorem saveToHistory_evicts_oldest:
  "(length (history s) = 20 \<longrightarrow>
      history (saveToHistory now stamp f d qs s) = newItem now stamp f d qs # butlast (history s)
      \<and> length (history (saveToHistory now stamp f d qs s)) = 20
      \<and> history s = butlast (history s) @ [last (history s)])
   \<and> (length (history s) < 20 \<longrightarrow>
      history (saveToHistory now stamp f d qs s) = newItem now stamp f d qs # history s)
   \<and> localStorage (saveToHistory now stamp f d qs s) ''exam_simulator_history''
        = Some (Text (history_json (history (saveToHistory now stamp f d qs s))))
   \<and> history (handleLoadFromHistory item s) = history s"
proof (intro conjI impI)
  assume len: "length (history s) = 20"
  show "history (saveToHistory now stamp f d qs s) = newItem now stamp f d qs # butlast (history s)"
    using len by (simp add: history_saveToHistory take_19_butlast)
  show "length (history (saveToHistory now stamp f d qs s)) = 20"
    using len by (simp add: history_saveToHistory)
  have "history s \<noteq> []" using len by auto
  then show "history s = butlast (history s) @ [last (history s)]" by simp
next
  assume "length (history s) < 20"
  then show "history (saveToHistory now stamp f d qs s) = newItem now stamp f d qs # history s"
    by (simp add: history_saveToHistory)
next
  show "localStorage (saveToHistory now stamp f d qs s) ''exam_simulator_history''
        = Some (Text (history_json (history (saveToHistory now stamp f d qs s))))"
    by (rule storage_saveToHistory)
next
  show "history (handleLoadFromHistory item s) = history s"
    by (simp add: handleLoadFromHistory_def)
qed

theorem saveToHistory_evicts_oldest_witness:
  "length (history (app0\<lparr>history := hist20\<rparr>)) = 20
   \<and> history (saveToHistory ''u'' ''2024-02-02'' ''b.txt'' HARD [] (app0\<lparr>history := hist20\<rparr>))
       = newItem ''u'' ''2024-02-02'' ''b.txt'' HARD [] # map (\<lambda>c. item0 [c]) ''abcdefghijklmnopqrs''
   \<and> last hist20 = item0 ''t''
   \<and> length (history app0) < 20
   \<and> history (saveToHistory ''u'' ''2024-02-02'' ''b.txt'' HARD [] app0)
       = [newItem ''u'' ''2024-02-02'' ''b.txt'' HARD []]"
  using saveToHistory_evicts_oldest [of "app0\<lparr>history := hist20\<rparr>" "''u''" "''2024-02-02''" "''b.txt''" HARD "[]"]
        saveToHistory_evicts_oldest [of app0 "''u''" "''2024-02-02''" "''b.txt''" HARD "[]"]
  by (simp add: hist20_def app0_def initial_app_def)

text \<open>
  C10. \<open>handleDeleteHistory\<close> keeps exactly the entries whose id differs from the given
  one: the entries left are those of the old list with another id, none with the given
  id remains, the entries with another id are the same sequence before and after (same
  entries, same relative order), the new list is a subsequence of the old one, and the
  stored copy is the new in-memory list.
\<close>

theorem handleDeleteHistory_removes_exactly:
  "set (history (handleDeleteHistory i s)) = {x \<in> set (history s). h_id x \<noteq> i}
   \<and> filter (\<lambda>x. h_id x = i) (history (handleDeleteHistory i s)) = []
   \<and> filter (\<lambda>x. h_id x \<noteq> i) (history (handleDeleteHistory i s))
        = filter (\<lambda>x. h_id x \<noteq> i) (history s)
   \<and> subseq (history (handleDeleteHistory i s)) (history s)
   \<and> length (history s)
        = length (history (handleDeleteHistory i s)) + length (filter (\<lambda>x. h_id x = i) (history s))
   \<and> localStorage (handleDeleteHistory i s) ''exam_simulator_history''
        = Some (Text (history_json (history (handleDeleteHistory i s))))"
proof -
  have h: "history (handleDeleteHistory i s) = filter (\<lambda>x. h_id x \<noteq> i) (history s)"
    by (simp add: handleDeleteHistory_def Let_def)
  have st: "localStorage (handleDeleteHistory i s) ''exam_simulator_history''
        = Some (Text (history_json (filter (\<lambda>x. h_id x \<noteq> i) (history s))))"
    by (simp add: handleDeleteHistory_def Let_def)
  have len: "length (history s)
        = length (filter (\<lambda>x. h_id x \<noteq> i) (history s)) + length (filter (\<lambda>x. h_id x = i) (history s))"
    using sum_length_filter_compl [of "\<lambda>x. h_id x = i" "history s"] by simp
  have none: "filter (\<lambda>x. h_id x = i) (filter (\<lambda>x. h_id x \<noteq> i) (history s)) = []"
    by (simp add: filter_empty_conv)
  show ?thesis
    unfolding h st using len none by auto
qed

section \<open>Quiz session: reaching completion\<close>

lemma cycle_last:
  assumes "awaiting pre 0 s" "k \<noteq> - 1"
  shows "ui_step (ui_step (Running s) (SelectOption k)) Advance = Completed (pre @ [k])"
  using assms
  by (simp add: awaiting_def handleOptionSelect_def hasAnsweredCurrent_def nextButton_def
      Button_def handleNext_def isLastQuestion_def nth_append list_update_append)

lemma cycle_next:
  assumes "awaiting pre (Suc m) s" "k \<noteq> - 1"
  shows "\<exists>s'. ui_step (ui_step (Running s) (SelectOption k)) Advance = Running s' \<and> awaiting (pre @ [k]) m s'"
  using assms
  by (simp add: awaiting_def handleOptionSelect_def hasAnsweredCurrent_def nextButton_def
      Button_def handleNext_def isLastQuestion_def nth_append list_update_append)

lemma ui_run_Cons: "ui_run st (e # evs) = ui_run (ui_step st e) evs"
  by (simp add: ui_run_def)

lemma cycles_Cons: "cycles (k # ks) = SelectOption k # Advance # cycles ks"
  by (simp add: cycles_def)

lemma run_cycles_completes:
  assumes "awaiting pre m s" "length ks = Suc m" "\<forall>k\<in>set ks. k \<noteq> - 1"
  shows "ui_run (Running s) (cycles ks) = Completed (pre @ ks)"
  using assms
proof (induction ks arbitrary: pre m s)
  case Nil
  then show ?case by simp
next
  case (Cons k ks)
  have k: "k \<noteq> - 1" using Cons.prems(3) by simp
  show ?case
  proof (cases m)
    case 0
    then have "ks = []" using Cons.prems(2) by simp
    moreover have "ui_step (ui_step (Running s) (SelectOption k)) Advance = Completed (pre @ [k])"
      using cycle_last [of pre s k] Cons.prems(1) k 0 by simp
    ultimately show ?thesis by (simp add: cycles_Cons ui_run_Cons) (simp add: cycles_def ui_run_def)
  next
    case (Suc m')
    then obtain s' where s': "ui_step (ui_step (Running s) (SelectOption k)) Advance = Running s'"
        "awaiting (pre @ [k]) m' s'"
      using cycle_next [of pre m' s k] Cons.prems(1) k by auto
    have "ui_run (Running s') (cycles ks) = Completed ((pre @ [k]) @ ks)"
      using Cons.IH [OF s'(2)] Cons.prems(2,3) Suc by simp
    then show ?thesis using s'(1) by (simp add: cycles_Cons ui_run_Cons)
  qed
qed

lemma awaiting_mount: "qs \<noteq> [] \<Longrightarrow> awaiting [] (length qs - 1) (mount qs)"
  by (cases qs) (simp_all add: awaiting_def mount_def)

text \<open>
  C8, as the code has it. For a non-empty question sequence of length \<open>n\<close>, \<open>n\<close>
  cycles of \<open>selectOption k\<close> then \<open>advance\<close>, each \<open>k\<close> an option index (so never
  the no-answer value \<open>-1\<close>), end in \<open>Completed\<close> with exactly the \<open>n\<close> selected
  answers. In a state with no answer for the current question the Next button is
  disabled and \<open>advance\<close> leaves the state as it is. No event moves the current index
  except \<open>advance\<close> from a state with an answer, which moves it by one.
\<close>

theorem cycles_reach_Completed:
  "(qs \<noteq> [] \<and> length ks = length qs \<and> (\<forall>k\<in>set ks. k \<noteq> - 1) \<longrightarrow>
       ui_run (Running (mount qs)) (cycles ks) = Completed ks)
   \<and> (\<not> hasAnsweredCurrent s \<longrightarrow> ui_step (Running s) Advance = Running s)
   \<and> (ui_step (Running s) e = Running s' \<longrightarrow>
        currentIndex s' = currentIndex s
        \<or> (e = Advance \<and> hasAnsweredCurrent s \<and> currentIndex s' = currentIndex s + 1))"
proof (intro conjI impI)
  assume a: "qs \<noteq> [] \<and> length ks = length qs \<and> (\<forall>k\<in>set ks. k \<noteq> - 1)"
  then have "length ks = Suc (length qs - 1)" by (cases qs) simp_all
  then show "ui_run (Running (mount qs)) (cycles ks) = Completed ks"
    using run_cycles_completes [OF awaiting_mount, of qs ks] a by simp
next
  assume "\<not> hasAnsweredCurrent s"
  then show "ui_step (Running s) Advance = Running s"
    by (simp add: nextButton_def Button_def)
next
  assume "ui_step (Running s) e = Running s'"
  then show "currentIndex s' = currentIndex s
        \<or> (e = Advance \<and> hasAnsweredCurrent s \<and> currentIndex s' = currentIndex s + 1)"
    by (cases e)
       (auto simp: handleOptionSelect_def nextButton_def Button_def handleNext_def split: if_splits)
qed

theorem cycles_reach_Completed_witness:
  "quiz3 \<noteq> [] \<and> length [1, 0, 0 :: int] = length quiz3
   \<and> ui_run (Running (mount quiz3)) (cycles [1, 0, 0]) = Completed [1, 0, 0]
   \<and> \<not> hasAnsweredCurrent (mount quiz3)
   \<and> ui_step (Running (mount quiz3)) Advance = Running (mount quiz3)
   \<and> ui_step (Running quiz3_revealed) Advance
        = Running (quiz3_revealed\<lparr>currentIndex := 1, showExplanation := False\<rparr>)
   \<and> hasAnsweredCurrent quiz3_revealed
   \<and> currentIndex (quiz3_revealed\<lparr>currentIndex := 1, showExplanation := False\<rparr>)
        = currentIndex quiz3_revealed + 1"
proof -
  have a: "quiz3 \<noteq> [] \<and> length [1, 0, 0 :: int] = length quiz3"
    by (simp add: quiz3_def)
  have b: "\<not> hasAnsweredCurrent (mount quiz3)"
    by (simp add: quiz3_def mount_def hasAnsweredCurrent_def)
  have c: "ui_step (Running quiz3_revealed) Advance
        = Running (quiz3_revealed\<lparr>currentIndex := 1, showExplanation := False\<rparr>)"
    by (simp add: quiz3_revealed_def quiz3_def mount_def handleOptionSelect_def
        hasAnsweredCurrent_def nextButton_def Button_def handleNext_def isLastQuestion_def)
  have d: "currentIndex quiz3_revealed = 0"
    by (simp add: quiz3_revealed_def quiz3_def mount_def handleOptionSelect_def hasAnsweredCurrent_def)
  show ?thesis
    using a b c d
      cycles_reach_Completed [of quiz3 "[1, 0, 0]" "mount quiz3" Advance "mount quiz3"]
      cycles_reach_Completed [of quiz3 "[1, 0, 0]" quiz3_revealed Advance
        "quiz3_revealed\<lparr>currentIndex := 1, showExplanation := False\<rparr>"]
    by simp
qed

text \<open>
  The claim as the spec states it, for every question sequence, fails on the empty one:
  after zero cycles the session is still running, the component has no current
  question to show, and a further select and advance do not complete it either.
\<close>

theorem empty_quiz_counterexample:
  "length (cycles []) = 2 * length ([] :: Question list)
   \<and> ui_run (Running (mount [])) (cycles []) = Running (mount [])
   \<and> is_Completed (ui_run (Running (mount [])) (cycles [])) = False
   \<and> currentQuestion (mount []) = None
   \<and> is_Completed (ui_run (Running (mount [])) [SelectOption 0, Advance]) = False"
  by (simp add: ui_run_def cycles_def currentQuestion_def mount_def handleOptionSelect_def
      hasAnsweredCurrent_def nextButton_def Button_def handleNext_def isLastQuestion_def)

section \<open>Scoring\<close>

lemma length_filter_upt_Suc:
  "length (filter P [0..<Suc n]) = (if P 0 then 1 else 0) + length (filter (\<lambda>i. P (Suc i)) [0..<n])"
proof -
  have "[0..<Suc n] = 0 # map Suc [0..<n]"
    by (simp add: upt_conv_Cons map_Suc_upt del: upt_Suc)
  then show ?thesis
    by (simp add: filter_map comp_def del: upt_Suc)
qed

lemma score_from_count:
  "idx + length ua \<le> length qs \<Longrightarrow>
   score_from qs idx acc ua
     = Inr (acc + int (length (filter (\<lambda>i. ua ! i = q_correctAnswerIndex (qs ! (idx + i))) [0..<length ua])))"
proof (induction ua arbitrary: idx acc)
  case Nil
  then show ?case by simp
next
  case (Cons a ua)
  have "Suc idx + length ua \<le> length qs" using Cons.prems by simp
  note IH = Cons.IH [OF this]
  show ?case
    using Cons.prems
    by (simp add: IH length_filter_upt_Suc del: upt_Suc)
qed

lemma step_length_inv:
  "length (answers_of (step st e)) = length (answers_of st)"
  by (cases st; cases e)
     (auto simp: handleOptionSelect_def handleNext_def)

lemma run_length_inv: "length (answers_of (run st evs)) = length (answers_of st)"
  by (induction evs arbitrary: st) (simp_all add: run_def step_length_inv)

lemma completed_length:
  assumes "run (Running (mount qs)) evs = Completed ua"
  shows "length ua = length qs"
  using run_length_inv [of "Running (mount qs)" evs] assms by (simp add: mount_def)

text \<open>
  C5, as the code has it. A session over the App's questions that completes, through
  whatever sequence of \<open>handleOptionSelect\<close> and \<open>handleNext\<close> calls, hands over one
  answer per question. For such an answer list \<open>handleQuizComplete\<close> stores a result
  whose score is the number of indices \<open>i\<close> with
  \<open>userAnswers[i] = questions[i].correctAnswerIndex\<close>, whose total is the number of
  questions, and whose answer list is the one handed over, of length total. An index
  that holds no answer (\<open>-1\<close>) is not among the counted ones when the correct index of
  its question is not \<open>-1\<close>.
\<close>

theorem handleQuizComplete_score:
  "(run (Running (mount (questions a))) evs = Completed ua \<longrightarrow> length ua = length (questions a))
   \<and> (length ua = length (questions a) \<longrightarrow>
        handleQuizComplete ua a
          = Inr (a\<lparr>result := Some \<lparr>r_score = int (length (spec_correct_indices (questions a) ua)),
                                    r_total = length (questions a),
                                    r_userAnswers = ua, r_questions = questions a\<rparr>,
                   appState := RESULTS\<rparr>)
        \<and> length ua = length (questions a)
        \<and> (\<forall>i. i < length ua \<and> ua ! i = - 1 \<and> q_correctAnswerIndex (questions a ! i) \<noteq> - 1
               \<longrightarrow> i \<notin> set (spec_correct_indices (questions a) ua)))"
proof (intro conjI impI allI)
  assume "run (Running (mount (questions a))) evs = Completed ua"
  then show "length ua = length (questions a)" by (rule completed_length)
next
  assume len: "length ua = length (questions a)"
  then show "handleQuizComplete ua a
          = Inr (a\<lparr>result := Some \<lparr>r_score = int (length (spec_correct_indices (questions a) ua)),
                                    r_total = length (questions a),
                                    r_userAnswers = ua, r_questions = questions a\<rparr>,
                   appState := RESULTS\<rparr>)"
    using score_from_count [of 0 ua "questions a" 0]
    by (simp add: handleQuizComplete_def spec_correct_indices_def)
  show "length ua = length (questions a)" by (rule len)
next
  fix i
  assume "i < length ua \<and> ua ! i = - 1 \<and> q_correctAnswerIndex (questions a ! i) \<noteq> - 1"
  then show "i \<notin> set (spec_correct_indices (questions a) ua)"
    by (auto simp: spec_correct_indices_def)
qed

lemma quiz3_session: "run (Running (mount quiz3)) (cycles [1, 0, 0]) = Completed [1, 0, 0]"
  by code_simp

lemma quiz3_correct: "spec_correct_indices quiz3 [1, 0, 0] = [0, 2]"
  by code_simp

theorem handleQuizComplete_score_witness:
  "run (Running (mount (questions (app0\<lparr>questions := quiz3\<rparr>)))) (cycles [1, 0, 0]) = Completed [1, 0, 0]
   \<and> length [1, 0, 0 :: int] = length (questions (app0\<lparr>questions := quiz3\<rparr>))
   \<and> (\<exists>a'. handleQuizComplete [1, 0, 0] (app0\<lparr>questions := quiz3\<rparr>) = Inr a'
         \<and> map_option r_score (result a') = Some 2 \<and> map_option r_total (result a') = Some 3)
   \<and> [1, - 1, 0 :: int] ! 1 = - 1 \<and> q_correctAnswerIndex (quiz3 ! 1) \<noteq> - 1
   \<and> 1 \<notin> set (spec_correct_indices quiz3 [1, - 1, 0])"
proof -
  have len: "length [1, 0, 0 :: int] = length (questions (app0\<lparr>questions := quiz3\<rparr>))"
    by (simp add: quiz3_def)

  have a: "handleQuizComplete [1, 0, 0] (app0\<lparr>questions := quiz3\<rparr>)
      = Inr (app0\<lparr>questions := quiz3,
                  result := Some \<lparr>r_score = 2, r_total = 3, r_userAnswers = [1, 0, 0], r_questions = quiz3\<rparr>,
                  appState := RESULTS\<rparr>)"
    using handleQuizComplete_score [of "app0\<lparr>questions := quiz3\<rparr>" "cycles [1, 0, 0]" "[1, 0, 0]"] len
    by (simp add: quiz3_correct)
  have c: "q_correctAnswerIndex (quiz3 ! 1) \<noteq> - 1" by (simp add: quiz3_def)
  have b: "1 \<notin> set (spec_correct_indices quiz3 [1, - 1, 0])"
    using handleQuizComplete_score [of "app0\<lparr>questions := quiz3\<rparr>" "[]" "[1, - 1, 0]"]
    by (simp add: quiz3_def)
  show ?thesis
    using a b len c by (simp add: quiz3_session)
qed

lemma quiz_minus1_correct: "spec_correct_indices quiz_minus1 [- 1, 2] = [0, 1]"
  by code_simp

text \<open>
  The claim as the spec states it fails on a quiz whose first question has the correct
  index \<open>-1\<close>, which nothing keeps a provider's record from having: a session in which
  \<open>handleNext\<close> is called before any answer to the first question completes with the
  answers \<open>[-1, 2]\<close>, and the index 0, with no recorded answer, is counted as correct:
  the score is 2 of 2.
\<close>

theorem unanswered_counted_counterexample:
  "run (Running (mount quiz_minus1)) [Advance, SelectOption 2, Advance] = Completed [- 1, 2]
   \<and> [- 1, 2 :: int] ! 0 = - 1
   \<and> spec_correct_indices quiz_minus1 [- 1, 2] = [0, 1]
   \<and> handleQuizComplete [- 1, 2] (app0\<lparr>questions := quiz_minus1\<rparr>)
       = Inr (app0\<lparr>questions := quiz_minus1,
                   result := Some \<lparr>r_score = 2, r_total = 2, r_userAnswers = [- 1, 2],
                                    r_questions = quiz_minus1\<rparr>,
                   appState := RESULTS\<rparr>)"
proof -
  have r: "run (Running (mount quiz_minus1)) [Advance, SelectOption 2, Advance] = Completed [- 1, 2]"
    by code_simp
  have i: "[- 1, 2 :: int] ! 0 = - 1" by simp
  have h: "handleQuizComplete [- 1, 2] (app0\<lparr>questions := quiz_minus1\<rparr>)
       = Inr (app0\<lparr>questions := quiz_minus1,
                   result := Some \<lparr>r_score = 2, r_total = 2, r_userAnswers = [- 1, 2],
                                    r_questions = quiz_minus1\<rparr>,
                   appState := RESULTS\<rparr>)"
    by (simp add: handleQuizComplete_def quiz_minus1_def)
  show ?thesis
    by (intro conjI r i quiz_minus1_correct h)
qed

section \<open>Mapping the provider's records\<close>

text \<open>What the mapping makes of a record that is not \<open>null\<close>.\<close>

lemma map_questions_from_null:
  "JNull \<in> set records \<Longrightarrow> map_questions_from idx records = Inl TypeError"
  by (induction records arbitrary: idx) (auto simp: map_question_def)

lemma map_questions_from_no_null:
  "JNull \<notin> set records \<Longrightarrow>
   \<exists>mapped. map_questions_from idx records = Inr mapped
     \<and> length mapped = length records
     \<and> map m_id mapped = [idx..<idx + length records]
     \<and> map m_options mapped = map (\<lambda>q. get_prop (Some q) ''options'') records
     \<and> map m_correctAnswerIndex mapped = map (\<lambda>q. get_prop (Some q) ''correctAnswerIndex'') records
     \<and> map m_text mapped = map (\<lambda>q. get_prop (Some q) ''questionText'') records
     \<and> map m_explanation mapped = map (\<lambda>q. get_prop (Some q) ''explanation'') records"
proof (induction records arbitrary: idx)
  case Nil
  then show ?case by simp
next
  case (Cons q records)
  have u: "[idx..<Suc (idx + length records)] = idx # [Suc idx..<Suc (idx + length records)]"
    by (simp add: upt_conv_Cons del: upt_Suc)
  have q: "q \<noteq> JNull" and rest: "JNull \<notin> set records"
    using Cons.prems by auto
  obtain mapped where m: "map_questions_from (Suc idx) records = Inr mapped"
      "length mapped = length records"
      "map m_id mapped = [Suc idx..<Suc (idx + length records)]"
      "map m_options mapped = map (\<lambda>q. get_prop (Some q) ''options'') records"
      "map m_correctAnswerIndex mapped = map (\<lambda>q. get_prop (Some q) ''correctAnswerIndex'') records"
      "map m_text mapped = map (\<lambda>q. get_prop (Some q) ''questionText'') records"
      "map m_explanation mapped = map (\<lambda>q. get_prop (Some q) ''explanation'') records"
    using Cons.IH [OF rest, of "Suc idx"] by (auto simp del: upt_Suc)
  show ?case
    using q m by (simp add: map_question_def u del: upt_Suc)
qed

text \<open>
  C1, as the code has it. The mapping makes no check of the shape. On a response that
  holds an array of questions none of which is \<open>null\<close>, \<open>handleGenerateQuiz\<close> reports
  no error and shows the quiz, whatever the number of options and the correct index of
  the records: the questions are the records in the order received, numbered from 0,
  each with the options, correct index, text and explanation that the record had (or
  \<open>undefined\<close>). The mapping throws only when a record is \<open>null\<close> or the response
  holds no array of questions, and then it is a \<open>TypeError\<close> that the \<open>catch\<close>
  reports, as it reports what the generation call threw.
\<close>

theorem handleGenerateQuiz_maps_every_record:
  "(get_prop (Some response) ''questions'' = Some (JArr records) \<and> JNull \<notin> set records \<longrightarrow>
      (\<exists>mapped. handleGenerateQuiz (Inr response) = QuizShown mapped
         \<and> length mapped = length records
         \<and> map m_id mapped = [0..<length records]
         \<and> map m_options mapped = map (\<lambda>q. get_prop (Some q) ''options'') records
         \<and> map m_correctAnswerIndex mapped
              = map (\<lambda>q. get_prop (Some q) ''correctAnswerIndex'') records
         \<and> map m_text mapped = map (\<lambda>q. get_prop (Some q) ''questionText'') records
         \<and> map m_explanation mapped = map (\<lambda>q. get_prop (Some q) ''explanation'') records))
   \<and> (get_prop (Some response) ''questions'' = Some (JArr records) \<and> JNull \<in> set records \<longrightarrow>
        handleGenerateQuiz (Inr response) = GenerationFailed TypeError)
   \<and> ((\<forall>rs. get_prop (Some response) ''questions'' \<noteq> Some (JArr rs)) \<longrightarrow>
        handleGenerateQuiz (Inr response) = GenerationFailed TypeError)
   \<and> handleGenerateQuiz (Inl e) = GenerationFailed e"
proof (intro conjI impI)
  assume h: "get_prop (Some response) ''questions'' = Some (JArr records) \<and> JNull \<notin> set records"
  then obtain mapped where m: "map_questions_from 0 records = Inr mapped"
      "length mapped = length records"
      "map m_id mapped = [0..<length records]"
      "map m_options mapped = map (\<lambda>q. get_prop (Some q) ''options'') records"
      "map m_correctAnswerIndex mapped = map (\<lambda>q. get_prop (Some q) ''correctAnswerIndex'') records"
      "map m_text mapped = map (\<lambda>q. get_prop (Some q) ''questionText'') records"
      "map m_explanation mapped = map (\<lambda>q. get_prop (Some q) ''explanation'') records"
    using map_questions_from_no_null [of records 0] by auto
  have "handleGenerateQuiz (Inr response) = QuizShown mapped"
    using h m(1) by (simp add: handleGenerateQuiz_def mappedQuestions_def)
  then show "\<exists>mapped. handleGenerateQuiz (Inr response) = QuizShown mapped
         \<and> length mapped = length records
         \<and> map m_id mapped = [0..<length records]
         \<and> map m_options mapped = map (\<lambda>q. get_prop (Some q) ''options'') records
         \<and> map m_correctAnswerIndex mapped
              = map (\<lambda>q. get_prop (Some q) ''correctAnswerIndex'') records
         \<and> map m_text mapped = map (\<lambda>q. get_prop (Some q) ''questionText'') records
         \<and> map m_explanation mapped = map (\<lambda>q. get_prop (Some q) ''explanation'') records"
    using m(2-7) by blast
next
  assume h: "get_prop (Some response) ''questions'' = Some (JArr records) \<and> JNull \<in> set records"
  then show "handleGenerateQuiz (Inr response) = GenerationFailed TypeError"
    using map_questions_from_null [of records 0]
    by (simp add: handleGenerateQuiz_def mappedQuestions_def)
next
  assume "\<forall>rs. get_prop (Some response) ''questions'' \<noteq> Some (JArr rs)"
  then have "mappedQuestions response = Inl TypeError"
    by (auto simp: mappedQuestions_def split: option.splits json.splits)
  then show "handleGenerateQuiz (Inr response) = GenerationFailed TypeError"
    by (simp add: handleGenerateQuiz_def)
next
  show "handleGenerateQuiz (Inl e) = GenerationFailed e"
    by (simp add: handleGenerateQuiz_def)
qed

theorem handleGenerateQuiz_maps_every_record_witness:
  "get_prop (Some bad_response) ''questions'' = Some (JArr [bad_record]) \<and> JNull \<notin> set [bad_record]
   \<and> handleGenerateQuiz (Inr bad_response)
        = QuizShown [\<lparr>m_id = 0, m_text = Some (JStr ''q''),
                       m_options = Some (JArr [JStr ''a'', JStr ''b'', JStr ''c'']),
                       m_correctAnswerIndex = Some (JNum 7), m_explanation = Some (JStr ''e'')\<rparr>]
   \<and> get_prop (Some null_record_response) ''questions'' = Some (JArr [JNull]) \<and> JNull \<in> set [JNull]
   \<and> handleGenerateQuiz (Inr null_record_response) = GenerationFailed TypeError
   \<and> get_prop (Some empty_object_response) ''questions'' = None
   \<and> handleGenerateQuiz (Inr empty_object_response) = GenerationFailed TypeError"
proof -
  have b: "get_prop (Some bad_response) ''questions'' = Some (JArr [bad_record])"
    by (simp add: bad_response_def)
  have bn: "JNull \<notin> set [bad_record]" by (simp add: bad_record_def)
  have n: "get_prop (Some null_record_response) ''questions'' = Some (JArr [JNull])"
    by (simp add: null_record_response_def)
  have nn: "JNull \<in> set [JNull]" by simp
  have e: "get_prop (Some empty_object_response) ''questions'' = None"
    by (simp add: empty_object_response_def)
  note t1 = handleGenerateQuiz_maps_every_record
    [where response = bad_response and records = "[bad_record]", THEN conjunct1, rule_format,
     OF conjI [OF b bn]]
  note t2 = handleGenerateQuiz_maps_every_record
    [where response = null_record_response and records = "[JNull]",
     THEN conjunct2, THEN conjunct1, rule_format, OF conjI [OF n nn]]
  note t3 = handleGenerateQuiz_maps_every_record
    [where response = empty_object_response,
     THEN conjunct2, THEN conjunct2, THEN conjunct1, rule_format]
  obtain mapped where m: "handleGenerateQuiz (Inr bad_response) = QuizShown mapped"
      "length mapped = length [bad_record]"
      "map m_id mapped = [0..<length [bad_record]]"
      "map m_options mapped = map (\<lambda>q. get_prop (Some q) ''options'') [bad_record]"
      "map m_correctAnswerIndex mapped = map (\<lambda>q. get_prop (Some q) ''correctAnswerIndex'') [bad_record]"
      "map m_text mapped = map (\<lambda>q. get_prop (Some q) ''questionText'') [bad_record]"
      "map m_explanation mapped = map (\<lambda>q. get_prop (Some q) ''explanation'') [bad_record]"
    using t1 by blast
  obtain x where x: "mapped = [x]"
    using m(2) by (cases mapped) simp_all
  have "x = \<lparr>m_id = 0, m_text = Some (JStr ''q''),
              m_options = Some (JArr [JStr ''a'', JStr ''b'', JStr ''c'']),
              m_correctAnswerIndex = Some (JNum 7), m_explanation = Some (JStr ''e'')\<rparr>"
    using m(3-7) unfolding x by (cases x) (simp add: bad_record_def)
  then have s: "handleGenerateQuiz (Inr bad_response)
        = QuizShown [\<lparr>m_id = 0, m_text = Some (JStr ''q''),
                       m_options = Some (JArr [JStr ''a'', JStr ''b'', JStr ''c'']),
                       m_correctAnswerIndex = Some (JNum 7), m_explanation = Some (JStr ''e'')\<rparr>]"
    using m(1) x by simp
  have te: "handleGenerateQuiz (Inr empty_object_response) = GenerationFailed TypeError"
    using t3 e by simp
  show ?thesis
    by (intro conjI b bn s n nn t2 e te)
qed

text \<open>
  The claim as the spec states it fails on a response whose only question has 3 options
  and the correct index 7: the Gemini adapter returns what \<open>JSON.parse\<close> gave, no
  error is reported, and the record is in the quiz.
\<close>

theorem malformed_record_passes_counterexample:
  "spec_well_shaped bad_record = False
   \<and> generateWithGemini_result parse_bad (Some ''bad'') = Inr bad_response
   \<and> handleGenerateQuiz (Inr bad_response)
        = QuizShown [\<lparr>m_id = 0, m_text = Some (JStr ''q''),
                       m_options = Some (JArr [JStr ''a'', JStr ''b'', JStr ''c'']),
                       m_correctAnswerIndex = Some (JNum 7), m_explanation = Some (JStr ''e'')\<rparr>]"
  by (simp add: handleGenerateQuiz_def mappedQuestions_def map_question_def bad_response_def
      bad_record_def spec_well_shaped_def generateWithGemini_result_def parse_bad_def)

section \<open>The request of the OpenAI-style adapter\<close>

text \<open>
  C2. The request that \<open>generateWithOpenAI\<close> sends is a POST with the bearer header,
  the messages and \<open>response_format\<close> \<open>json_object\<close>, and the configured model; but
  its URL is the same for every configuration. With the base URL
  \<open>http://localhost:11434/v1\<close> the request still goes to
  \<open>https://api.openai.com/v1/chat/completions\<close>, not to
  \<open>http://localhost:11434/v1/chat/completions\<close>; so does the whole of
  \<open>generateWithOpenAI\<close> on an image.
\<close>

theorem openai_fetch_ignores_baseUrl:
  "f_url (openai_fetch config messages) = ''https://api.openai.com/v1/chat/completions''
   \<and> f_method (openai_fetch config messages) = ''POST''
   \<and> b_messages (f_body (openai_fetch config messages)) = messages
   \<and> b_response_format (f_body (openai_fetch config messages)) = ''json_object''
   \<and> map_of (f_headers (openai_fetch (Some c) messages)) ''Authorization'' = Some (''Bearer '' @ oa_apiKey c)
   \<and> f_url (openai_fetch (Some ollama_config) messages) \<noteq> spec_openai_url ollama_config
   \<and> spec_openai_url ollama_config = ''http://localhost:11434/v1/chat/completions''
   \<and> b_model (f_body (openai_fetch (Some ollama_config) messages)) = ''llama3''
   \<and> map_sum id f_url
         (generateWithOpenAI_request systemInstruction base64Data ''image/png'' promptText decoded
            loading (Some ollama_config))
       = Inr ''https://api.openai.com/v1/chat/completions''"
  by (simp add: openai_fetch_def ollama_config_def spec_openai_url_def
      generateWithOpenAI_request_def userContent_def starts_with_def)

section \<open>The default adapter and the Gemini key\<close>

text \<open>
  C9. When the settings argument is absent, or its \<open>provider\<close> is falsy,
  \<open>generateQuizFromContent\<close> calls the Gemini adapter. In the Gemini adapter, when the
  settings hold no key (\<open>settings?.gemini?.apiKey\<close> is falsy), the key is the one of
  the environment, and the call fails for a missing key only when the environment has
  none either.
\<close>

theorem gemini_is_the_default:
  "(settings = None \<or> \<not> truthy (get_prop settings ''provider'') \<longrightarrow>
      generateQuizFromContent settings = CallGemini settings)
   \<and> (\<not> truthy (get_prop (get_prop settings ''gemini'') ''apiKey'') \<longrightarrow>
        gemini_apiKey settings env_API_KEY
          = (case env_API_KEY of
               None \<Rightarrow> Inl (Error ''Missing Gemini API Key. Please provide one in settings or configure the environment.'')
             | Some k \<Rightarrow>
                 if k = [] then Inl (Error ''Missing Gemini API Key. Please provide one in settings or configure the environment.'')
                 else Inr (JStr k)))"
  by (auto simp: generateQuizFromContent_def gemini_apiKey_def or_else_def Let_def
      split: option.splits)

theorem gemini_is_the_default_witness:
  "generateQuizFromContent None = CallGemini None
   \<and> \<not> truthy (get_prop (Some (JObj [(''provider'', JStr '''')])) ''provider'')
   \<and> generateQuizFromContent (Some (JObj [(''provider'', JStr '''')]))
        = CallGemini (Some (JObj [(''provider'', JStr '''')]))
   \<and> \<not> truthy (get_prop (get_prop (Some DEFAULT_SETTINGS) ''gemini'') ''apiKey'')
   \<and> gemini_apiKey (Some DEFAULT_SETTINGS) (Some ''ENVKEY'') = Inr (JStr ''ENVKEY'')
   \<and> gemini_apiKey None (Some ''ENVKEY'') = Inr (JStr ''ENVKEY'')"
  using gemini_is_the_default [of None undefined]
    gemini_is_the_default [of "Some (JObj [(''provider'', JStr '''')])" "Some ''ENVKEY''"]
    gemini_is_the_default [of "Some DEFAULT_SETTINGS" "Some ''ENVKEY''"]
    gemini_is_the_default [of None "Some ''ENVKEY''"]
  by (simp add: DEFAULT_SETTINGS_def)

section \<open>Settings: saving and loading\<close>

lemma map_of_set_prop: "map_of (set_prop k v kvs) k' = (if k' = k then Some v else map_of kvs k')"
  by (induction kvs) auto

lemma spread_Cons: "spread a ((k, v) # b) = spread (set_prop k v a) b"
  by (simp add: spread_def)

lemma map_of_spread:
  "distinct (map fst b) \<Longrightarrow>
   map_of (spread a b) k = (case map_of b k of Some v \<Rightarrow> Some v | None \<Rightarrow> map_of a k)"
proof (induction b arbitrary: a)
  case Nil
  then show ?case by (simp add: spread_def)
next
  case (Cons p b)
  obtain k' v' where p: "p = (k', v')" by (cases p)
  have d: "distinct (map fst b)" and notin: "k' \<notin> fst ` set b"
    using Cons.prems p by auto
  have none: "map_of b k' = None" using notin by (simp add: map_of_eq_None_iff)
  show ?case
    using Cons.IH [OF d, of "set_prop k' v' a"] none
    by (auto simp: p spread_Cons map_of_set_prop split: option.splits)
qed

lemma get_prop_DEFAULT: "get_prop (Some DEFAULT_SETTINGS) k = map_of (own_props DEFAULT_SETTINGS) k"
  by (simp add: DEFAULT_SETTINGS_def)

lemma settings_roundtrip_props:
  "spread (own_props DEFAULT_SETTINGS) (own_props (settings_json st)) = own_props (settings_json st)"
  by (simp add: DEFAULT_SETTINGS_def settings_json_def spread_def)

text \<open>
  C3, as the code has it. Settings of the current shape that are saved are loaded back
  equal by a freshly mounted App; and any saved object that has the three top-level
  fields (its property names distinct) is loaded back with the same value at every
  property name. Loading a stored object (its property names distinct)
  gives, for every top-level property name, the stored value when the stored object has
  the property, and the default's value otherwise: a missing top-level field (such as
  the \<open>gemini\<close> object) is filled from the defaults, and a stored top-level field is
  taken whole, with no merge inside it.
\<close>

theorem settings_roundtrip_and_top_level_merge:
  "aiSettings (load_settings (initial_app (localStorage (handleSaveSettings (settings_json st) a))))
     = settings_json st
   \<and> (localStorage a ''exam_simulator_settings'' = Some (Text parsed)
        \<and> distinct (map fst (own_props parsed)) \<longrightarrow>
        get_prop (Some (aiSettings (load_settings a))) k
          = (case map_of (own_props parsed) k of
               Some v \<Rightarrow> Some v
             | None \<Rightarrow> get_prop (Some DEFAULT_SETTINGS) k))
   \<and> (distinct (map fst kvs) \<and> map_of kvs ''provider'' \<noteq> None
        \<and> map_of kvs ''gemini'' \<noteq> None \<and> map_of kvs ''openai'' \<noteq> None \<longrightarrow>
        get_prop (Some (aiSettings (load_settings (initial_app (localStorage (handleSaveSettings (JObj kvs) b))))))
          k' = get_prop (Some (JObj kvs)) k')"
proof (intro conjI impI)
  show "aiSettings (load_settings (initial_app (localStorage (handleSaveSettings (settings_json st) a))))
     = settings_json st"
    using settings_roundtrip_props [of st]
    by (simp add: load_settings_def initial_app_def handleSaveSettings_def) (simp add: settings_json_def)
next
  assume h: "localStorage a ''exam_simulator_settings'' = Some (Text parsed)
        \<and> distinct (map fst (own_props parsed))"
  then show "get_prop (Some (aiSettings (load_settings a))) k
          = (case map_of (own_props parsed) k of
               Some v \<Rightarrow> Some v
             | None \<Rightarrow> get_prop (Some DEFAULT_SETTINGS) k)"
    by (simp add: load_settings_def map_of_spread get_prop_DEFAULT split: option.splits)
next
  assume h: "distinct (map fst kvs) \<and> map_of kvs ''provider'' \<noteq> None
        \<and> map_of kvs ''gemini'' \<noteq> None \<and> map_of kvs ''openai'' \<noteq> None"
  have "map_of kvs k' = None \<Longrightarrow> map_of (own_props DEFAULT_SETTINGS) k' = None"
  proof -
    assume n: "map_of kvs k' = None"
    have "k' \<noteq> ''provider''" "k' \<noteq> ''gemini''" "k' \<noteq> ''openai''"
      using h n by blast+
    then show ?thesis by (simp add: DEFAULT_SETTINGS_def)
  qed
  then show "get_prop (Some (aiSettings (load_settings (initial_app (localStorage (handleSaveSettings (JObj kvs) b))))))
          k' = get_prop (Some (JObj kvs)) k'"
    using h
    by (simp add: load_settings_def initial_app_def handleSaveSettings_def map_of_spread
        split: option.splits)
qed

theorem settings_roundtrip_and_top_level_merge_witness:
  "localStorage (initial_app old_store) ''exam_simulator_settings'' = Some (Text old_settings)
   \<and> distinct (map fst (own_props old_settings))
   \<and> get_prop (Some (aiSettings (load_settings (initial_app old_store)))) ''gemini''
        = Some (JObj [(''apiKey'', JStr '''')])
   \<and> get_prop (Some (aiSettings (load_settings (initial_app old_store)))) ''openai''
        = Some (JObj [(''apiKey'', JStr ''sk''), (''model'', JStr ''m'')])
   \<and> distinct (map fst merged_old_props) \<and> map_of merged_old_props ''provider'' \<noteq> None
   \<and> map_of merged_old_props ''gemini'' \<noteq> None \<and> map_of merged_old_props ''openai'' \<noteq> None
   \<and> get_prop (Some (aiSettings (load_settings (initial_app
        (localStorage (handleSaveSettings (JObj merged_old_props) app0)))))) ''openai''
        = Some (JObj [(''apiKey'', JStr ''sk''), (''model'', JStr ''m'')])"
proof -
  have a: "localStorage (initial_app old_store) ''exam_simulator_settings'' = Some (Text old_settings)"
    by (simp add: initial_app_def old_store_def)
  have b: "distinct (map fst (own_props old_settings))"
    by (simp add: old_settings_def)
  have c: "map_of (own_props old_settings) ''gemini'' = None"
    by (simp add: old_settings_def)
  have d: "map_of (own_props old_settings) ''openai''
      = Some (JObj [(''apiKey'', JStr ''sk''), (''model'', JStr ''m'')])"
    by (simp add: old_settings_def)
  have e: "get_prop (Some DEFAULT_SETTINGS) ''gemini'' = Some (JObj [(''apiKey'', JStr '''')])"
    by (simp add: DEFAULT_SETTINGS_def)
  have f1: "distinct (map fst merged_old_props)"
    and f2: "map_of merged_old_props ''provider'' \<noteq> None"
    and f3: "map_of merged_old_props ''gemini'' \<noteq> None"
    and f4: "map_of merged_old_props ''openai'' \<noteq> None"
    by (simp_all add: merged_old_props_def)
  have g: "map_of merged_old_props ''openai''
      = Some (JObj [(''apiKey'', JStr ''sk''), (''model'', JStr ''m'')])"
    by (simp add: merged_old_props_def)
  note merge = settings_roundtrip_and_top_level_merge
    [where a = "initial_app old_store" and parsed = old_settings, THEN conjunct2, THEN conjunct1]
  note roundtrip = settings_roundtrip_and_top_level_merge
    [where kvs = merged_old_props and b = app0 and k' = "''openai''", THEN conjunct2, THEN conjunct2]
  have h: "get_prop (Some (aiSettings (load_settings (initial_app old_store)))) ''gemini''
        = Some (JObj [(''apiKey'', JStr '''')])"
    using merge [of "''gemini''"] a b by (simp add: c e)
  have i: "get_prop (Some (aiSettings (load_settings (initial_app old_store)))) ''openai''
        = Some (JObj [(''apiKey'', JStr ''sk''), (''model'', JStr ''m'')])"
    using merge [of "''openai''"] a b by (simp add: d)
  have j: "get_prop (Some (aiSettings (load_settings (initial_app
        (localStorage (handleSaveSettings (JObj merged_old_props) app0)))))) ''openai''
        = Some (JObj [(''apiKey'', JStr ''sk''), (''model'', JStr ''m'')])"
    using roundtrip f1 f2 f3 f4 by (simp add: g)
  show ?thesis
    by (intro conjI a b h i j f1 f2 f3 f4)
qed

lemma old_loaded:
  "aiSettings (load_settings (initial_app old_store)) = JObj merged_old_props"
  by (simp add: load_settings_def initial_app_def old_store_def old_settings_def DEFAULT_SETTINGS_def
      spread_def merged_old_props_def)

text \<open>
  The claim as the spec states it fails on a stored object of an older shape whose
  \<open>openai\<close> object has no \<open>baseUrl\<close> and which has no \<open>gemini\<close> object: the
  loaded settings have the default \<open>gemini\<close> object, and still no \<open>openai.baseUrl\<close>.
\<close>

theorem nested_field_not_filled_counterexample:
  "get_path old_settings [''openai'', ''baseUrl''] = None
   \<and> get_path DEFAULT_SETTINGS [''openai'', ''baseUrl''] = Some (JStr ''https://api.openai.com/v1'')
   \<and> get_path (aiSettings (load_settings (initial_app old_store))) [''openai'', ''baseUrl''] = None
   \<and> get_path (aiSettings (load_settings (initial_app old_store))) [''gemini'', ''apiKey''] = Some (JStr '''')"
  by (simp add: old_loaded get_path_def) (simp add: old_settings_def DEFAULT_SETTINGS_def merged_old_props_def)

section \<open>Text of a PDF, page by page\<close>

lemma pages_from_eq:
  "i \<le> Suc (numPages pdf) \<Longrightarrow>
   pages_from pdf i acc
     = acc @ concat (map (\<lambda>n. spec_page_block n (getPage pdf n)) [i..<Suc (numPages pdf)])"
proof (induction pdf i acc rule: pages_from.induct)
  case (1 pdf i fullText)
  show ?case
  proof (cases "i \<le> numPages pdf")
    case True
    have u: "[i..<Suc (numPages pdf)] = i # [Suc i..<Suc (numPages pdf)]"
      using True by (simp add: upt_conv_Cons del: upt_Suc)
    show ?thesis
    proof (cases "getPage pdf i")
      case None
      with True "1.IH"
      show ?thesis
        by (subst pages_from.simps) (simp add: u spec_page_block_def del: upt_Suc)
    next
      case (Some items)
      with True "1.IH"
      show ?thesis
        by (subst pages_from.simps) (simp add: u spec_page_block_def del: upt_Suc)
    qed
  next
    case False
    with "1.prems" have "i = Suc (numPages pdf)" by simp
    then show ?thesis by (subst pages_from.simps) simp
  qed
qed

lemma spec_page_block_dash: "\<exists>t. spec_page_block n page = CHR ''-'' # t"
  by (cases page) (simp_all add: spec_page_block_def)

lemma not_blank_document: "0 < numPages pdf \<Longrightarrow> \<not> is_blank (spec_document_text pdf)"
proof -
  assume "0 < numPages pdf"
  then have "[Suc 0..<Suc (numPages pdf)] = Suc 0 # [Suc (Suc 0)..<Suc (numPages pdf)]"
    by (simp add: upt_conv_Cons del: upt_Suc)
  moreover obtain t where "spec_page_block (Suc 0) (getPage pdf (Suc 0)) = CHR ''-'' # t"
    using spec_page_block_dash by blast
  ultimately show ?thesis
    by (simp add: spec_document_text_def is_blank_def is_space_def del: upt_Suc)
qed

lemma rethrow_empty_pdf:
  "rethrow ''PDF appears to be empty or contains only scanned images without text layer.''
     = Error ''PDF appears to be empty or contains only scanned images without text layer.''"
  by code_simp

text \<open>
  C6. For a loaded document with at least one page, \<open>extractTextFromPdf\<close> returns a
  text, whatever pages fail: the blocks of pages 1 to \<open>numPages\<close> in page order, the
  block of a page being its text after the marker \<open>--- PAGE n ---\<close>, or the marker
  \<open>--- PAGE n (Extraction Failed) ---\<close> when its extraction throws. Only a document
  with no page at all is refused, as empty.
\<close>

theorem extractTextFromPdf_page_tolerant:
  "extractTextFromPdf (Loaded pdf)
     = (if numPages pdf = 0
        then Inl (Error ''PDF appears to be empty or contains only scanned images without text layer.'')
        else Inr (spec_document_text pdf))"
proof (cases "numPages pdf = 0")
  case True
  then have "pages_from pdf 1 [] = []" by (subst pages_from.simps) simp
  then show ?thesis
    using True by (simp add: extractTextFromPdf_def is_blank_def rethrow_empty_pdf)
next
  case False
  have "pages_from pdf 1 [] = spec_document_text pdf"
    using pages_from_eq [of 1 pdf "[]"] by (simp add: spec_document_text_def)
  then show ?thesis
    using False not_blank_document [of pdf] by (simp add: extractTextFromPdf_def)
qed

text \<open>The spec's scenario: two pages, the second one fails.\<close>

theorem extractTextFromPdf_page_tolerant_witness:
  "extractTextFromPdf (Loaded two_pages)
     = Inr ''--- PAGE 1 ---\<newline>Hello world\<newline>\<newline>--- PAGE 2 (Extraction Failed) ---\<newline>\<newline>''"
  by (simp add: extractTextFromPdf_page_tolerant)
     (simp add: two_pages_def spec_document_text_def spec_page_block_def show_nat.simps digit_char_def upt_rec)

end
